theory Spec2Isabelle
  imports Main "HOL-Library.Word"
begin

section \<open>Python values, exceptions and the HTTP boundary\<close>

text \<open>
  The client of \<^verbatim>\<open>botcity/maestro/sdk.py\<close> is embedded method by method. Python values
  that flow through the client (request fields, decoded JSON, the stored token) are
  values of \<open>pyval\<close>; \<open>None\<close> and JSON \<open>null\<close> are both \<open>PNone\<close>. A float is kept as
  its literal. A dictionary is an association list read with \<open>map_of\<close>.
\<close>

datatype pyval =
    PNone
  | PBool bool
  | PInt int
  | PFloat string
  | PStr string
  | PList "pyval list"
  | PDict "(string \<times> pyval) list"

text \<open>
  The exceptions the methods can raise. \<open>ValueError\<close> carries its argument tuple
  (\<^verbatim>\<open>ValueError(a, b)\<close> has two arguments). \<open>JSONDecodeError\<close> is the decoder's
  exception and a subclass of \<open>ValueError\<close>, which matters to \<^verbatim>\<open>except ValueError\<close>.
\<close>

datatype exn =
    RuntimeError string
  | ValueError "string list"
  | JSONDecodeError
  | KeyError string
  | TypeError
  | AttributeError
  | OSError string

type_synonym bytes = "8 word list"

text \<open>
  A request as \<^verbatim>\<open>requests.post(url, data=..., files=...)\<close> or
  \<^verbatim>\<open>requests.get(url, params=...)\<close> issues it: the fields of a \<open>POST\<close> are its form
  fields, those of a \<open>GET\<close> its query parameters. An uploaded file is
  \<open>(part name, file name, content, content type, part headers)\<close>.
\<close>

type_synonym upload = "string \<times> string \<times> bytes \<times> string \<times> (string \<times> string) list"

datatype request =
    POST string "(string \<times> pyval) list" "upload list"
  | GET string "(string \<times> pyval) list"

record response =
  status_code :: int
  resp_text :: string
  resp_content :: bytes
  resp_headers :: "string \<rightharpoonup> string"

text \<open>
  The collaborators that are not code of the client are parameters: the transport (the
  portal's answer to a request, given the requests issued before it), the JSON decoder
  and encoder of the standard library, \<open>str()\<close> of a value that is not a string, the
  file reader, and the two \<open>from_json\<close> constructors of \<^verbatim>\<open>botcity.maestro.model\<close>.
  The decoder answers \<open>None\<close> where \<^verbatim>\<open>json.loads\<close> raises; the file reader
  answers the \<open>OSError\<close> of a file that cannot be opened. A transport that raises
  instead of answering is outside this model.
\<close>

record ('sm, 'task) env =
  transport :: "request list \<Rightarrow> request \<Rightarrow> response"
  loads :: "string \<Rightarrow> pyval option"
  dumps :: "pyval \<Rightarrow> string"
  repr :: "pyval \<Rightarrow> string"
  open_rb :: "string \<Rightarrow> exn + bytes"
  ServerMessage_from_json :: "string \<Rightarrow> exn + 'sm"
  AutomationTask_from_json :: "pyval \<Rightarrow> exn + 'task"

definition requests_post ::
  "('sm, 'task) env \<Rightarrow> request list \<Rightarrow> string \<Rightarrow> (string \<times> pyval) list \<Rightarrow> upload list
    \<Rightarrow> response \<times> request list" where
  "requests_post env net url data files =
     (let r = POST url data files in (transport env net r, net @ [r]))"

definition requests_get ::
  "('sm, 'task) env \<Rightarrow> request list \<Rightarrow> string \<Rightarrow> (string \<times> pyval) list
    \<Rightarrow> response \<times> request list" where
  "requests_get env net url params =
     (let r = GET url params in (transport env net r, net @ [r]))"

subsection \<open>Python's built-in operations used by the client\<close>

text \<open>Truthiness of an \<^verbatim>\<open>Optional[str]\<close>: \<open>None\<close> and the empty string are false.\<close>

definition truthy :: "string option \<Rightarrow> bool" where
  "truthy v = (case v of None \<Rightarrow> False | Some s \<Rightarrow> s \<noteq> [])"

text \<open>\<^verbatim>\<open>a or b\<close>.\<close>

definition py_or :: "string option \<Rightarrow> string option \<Rightarrow> string option" where
  "py_or a b = (if truthy a then a else b)"

text \<open>An \<^verbatim>\<open>Optional[str]\<close> as a value, and inside an f-string.\<close>

definition opt_val :: "string option \<Rightarrow> pyval" where
  "opt_val v = (case v of None \<Rightarrow> PNone | Some s \<Rightarrow> PStr s)"

definition fmt_opt :: "string option \<Rightarrow> string" where
  "fmt_opt v = (case v of None \<Rightarrow> ''None'' | Some s \<Rightarrow> s)"

text \<open>\<^verbatim>\<open>'%d' % n\<close>: the decimal numeral of an integer.\<close>

fun dec_nat :: "nat \<Rightarrow> string" where
  "dec_nat n = (if n < 10 then [''0123456789'' ! n] else dec_nat (n div 10) @ [''0123456789'' ! (n mod 10)])"

declare dec_nat.simps [simp del]

definition fmt_d :: "int \<Rightarrow> string" where
  "fmt_d i = (if i < 0 then CHR ''-'' # dec_nat (nat (- i)) else dec_nat (nat i))"

text \<open>\<^verbatim>\<open>'%s' % v\<close>, that is \<open>str(v)\<close>: a string is printed as it is.\<close>

definition fmt_s :: "('sm, 'task) env \<Rightarrow> pyval \<Rightarrow> string" where
  "fmt_s env v =
     (case v of
        PStr s \<Rightarrow> s
      | PNone \<Rightarrow> ''None''
      | PBool b \<Rightarrow> (if b then ''True'' else ''False'')
      | PInt i \<Rightarrow> fmt_d i
      | _ \<Rightarrow> repr env v)"

text \<open>\<^verbatim>\<open>req.json()\<close>: the decoded body, or the decoder's exception.\<close>

definition req_json :: "('sm, 'task) env \<Rightarrow> response \<Rightarrow> exn + pyval" where
  "req_json env req = (case loads env (resp_text req) of None \<Rightarrow> Inl JSONDecodeError | Some v \<Rightarrow> Inr v)"

text \<open>
  \<^verbatim>\<open>v.get(k, d)\<close> exists on a dictionary only; \<^verbatim>\<open>v[k]\<close> with a string key raises
  \<open>KeyError\<close> on a dictionary without the key and \<open>TypeError\<close> on anything else.
\<close>

definition dict_get :: "pyval \<Rightarrow> string \<Rightarrow> pyval \<Rightarrow> exn + pyval" where
  "dict_get v k d =
     (case v of
        PDict kvs \<Rightarrow> (case map_of kvs k of None \<Rightarrow> Inr d | Some x \<Rightarrow> Inr x)
      | _ \<Rightarrow> Inl AttributeError)"

definition getitem :: "pyval \<Rightarrow> string \<Rightarrow> exn + pyval" where
  "getitem v k =
     (case v of
        PDict kvs \<Rightarrow> (case map_of kvs k of None \<Rightarrow> Inl (KeyError k) | Some x \<Rightarrow> Inr x)
      | _ \<Rightarrow> Inl TypeError)"

section \<open>The session: credentials and the access token\<close>

text \<open>
  The fields \<^verbatim>\<open>_server\<close>, \<^verbatim>\<open>_login\<close>, \<^verbatim>\<open>_key\<close> and \<^verbatim>\<open>_access_token\<close> of
  \<^verbatim>\<open>BotMaestroSDK\<close>. The token is whatever the login response held under
  \<^verbatim>\<open>access_token\<close>, so it is a \<open>pyval\<close>; \<open>PNone\<close> is the absent token.
\<close>

record BotMaestroSDK =
  p_server :: "string option"
  p_login :: "string option"
  p_key :: "string option"
  p_access_token :: pyval

text \<open>The setter of the \<^verbatim>\<open>server\<close> property (lines 63-68).\<close>

definition set_server :: "BotMaestroSDK \<Rightarrow> string option \<Rightarrow> BotMaestroSDK" where
  "set_server self server =
     (let server' =
        (case server of
           None \<Rightarrow> None
         | Some s \<Rightarrow> if s \<noteq> [] \<and> last s = CHR ''/'' then Some (butlast s) else Some s)
      in self\<lparr>p_server := server'\<rparr>)"

text \<open>\<^verbatim>\<open>__init__\<close> (lines 37-56).\<close>

definition init :: "string option \<Rightarrow> string option \<Rightarrow> string option \<Rightarrow> BotMaestroSDK" where
  "init server login key =
     set_server \<lparr>p_server = None, p_login = login, p_key = key, p_access_token = PNone\<rparr> server"

text \<open>\<^verbatim>\<open>logoff\<close> (lines 112-116).\<close>

definition logoff :: "BotMaestroSDK \<Rightarrow> BotMaestroSDK" where
  "logoff self = self\<lparr>p_access_token := PNone\<rparr>"

text \<open>
  \<^verbatim>\<open>login\<close> (lines 79-110). \<open>login_overrides\<close> is its first four lines (91-94), the
  assignments of the arguments to the stored credentials. The result of \<open>login\<close> is
  the outcome, the client after the call (an exception does not undo the assignments
  made before it) and the requests issued so far.
\<close>

definition login_overrides ::
  "BotMaestroSDK \<Rightarrow> string option \<Rightarrow> string option \<Rightarrow> string option \<Rightarrow> BotMaestroSDK" where
  "login_overrides self a_server a_login a_key =
     (let self1 = (if truthy a_server then set_server self a_server else self);
          self2 = self1\<lparr>p_login := py_or a_login (p_login self1)\<rparr>
      in self2\<lparr>p_key := py_or a_key (p_key self2)\<rparr>)"

definition login ::
  "('sm, 'task) env \<Rightarrow> BotMaestroSDK \<Rightarrow> request list
    \<Rightarrow> string option \<Rightarrow> string option \<Rightarrow> string option
    \<Rightarrow> (exn + unit) \<times> BotMaestroSDK \<times> request list" where
  "login env self net a_server a_login a_key =
     (let self3 = login_overrides self a_server a_login a_key
      in if \<not> truthy (p_server self3) then (Inl (ValueError [''Server is required.'']), self3, net)
         else if \<not> truthy (p_login self3) then (Inl (ValueError [''Login is required.'']), self3, net)
         else if \<not> truthy (p_key self3) then (Inl (ValueError [''Key is required.'']), self3, net)
         else
           (let self4 = logoff self3;
                url = fmt_opt (p_server self4) @ ''/app/api/login'';
                data = [(''userLogin'', opt_val (p_login self4)), (''key'', opt_val (p_key self4))];
                (req, net') = requests_post env net url data []
            in if status_code req = 200 then
                 (case req_json env req of
                    Inl e \<Rightarrow> (Inl e, self4, net')
                  | Inr j \<Rightarrow>
                      (case getitem j ''access_token'' of
                         Inl e \<Rightarrow> (Inl e, self4, net')
                       | Inr token \<Rightarrow> (Inr (), self4\<lparr>p_access_token := token\<rparr>, net')))
               else
                 (Inl (ValueError [''Error during login. Server returned '' @ fmt_d (status_code req)
                                    @ ''. '' @ resp_text req]), self4, net')))"

section \<open>The authenticated methods\<close>

text \<open>
  The decorator \<^verbatim>\<open>ensure_access_token\<close> (lines 13-33): the wrapped body runs only when
  the token is not \<open>None\<close>. Its other branch (\<^verbatim>\<open>NotImplementedError\<close> for an object
  that is not a \<^verbatim>\<open>BotMaestroSDK\<close>) cannot be reached from a method of the client.
\<close>

definition ensure_access_token ::
  "BotMaestroSDK \<Rightarrow> request list \<Rightarrow> (exn + 'r) \<times> request list \<Rightarrow> (exn + 'r) \<times> request list" where
  "ensure_access_token obj net func =
     (if p_access_token obj = PNone
      then (Inl (RuntimeError ''Access Token not available. Make sure to invoke login first.''), net)
      else func)"

text \<open>Sequencing of two steps of which the first may raise.\<close>

definition seq :: "exn + 'a \<Rightarrow> ('a \<Rightarrow> exn + 'b) \<Rightarrow> exn + 'b" where
  "seq r f = (case r of Inl e \<Rightarrow> Inl e | Inr x \<Rightarrow> f x)"

text \<open>\<^verbatim>\<open>req.json().get('message', '')\<close>.\<close>

definition json_message :: "('sm, 'task) env \<Rightarrow> response \<Rightarrow> exn + pyval" where
  "json_message env req = seq (req_json env req) (\<lambda>j. dict_get j ''message'' (PStr []))"

text \<open>\<^verbatim>\<open>except ValueError\<close> catches \<open>ValueError\<close> and its subclasses.\<close>

definition is_ValueError :: "exn \<Rightarrow> bool" where
  "is_ValueError e = (case e of ValueError _ \<Rightarrow> True | JSONDecodeError \<Rightarrow> True | _ \<Rightarrow> False)"

text \<open>
  The \<^verbatim>\<open>else\<close> branch that ten methods repeat word for word (lines 201-206, 233-238,
  258-263, 284-289, 312-317, 340-345, 370-375, 399-404, 438-443, 468-473), up to the
  words of the message: the exception that leaves the method. \<open>prefix\<close> is the format
  string up to \<^verbatim>\<open>%d\<close>.
\<close>

definition server_returned :: "('sm, 'task) env \<Rightarrow> string \<Rightarrow> response \<Rightarrow> exn" where
  "server_returned env prefix req =
     (case json_message env req of
        Inr m \<Rightarrow> ValueError [prefix @ fmt_d (status_code req) @ ''. '' @ fmt_s env m]
      | Inl e \<Rightarrow>
          if is_ValueError e
          then ValueError [prefix @ fmt_d (status_code req) @ ''. '' @ resp_text req]
          else e)"

text \<open>\<^verbatim>\<open>sep.join(xs)\<close>.\<close>

fun join :: "string \<Rightarrow> string list \<Rightarrow> string" where
  "join sep [] = []"
| "join sep [x] = x"
| "join sep (x # y # ys) = x @ sep @ join sep (y # ys)"

text \<open>\<^verbatim>\<open>alert\<close> (lines 118-143).\<close>

definition alert ::
  "('sm, 'task) env \<Rightarrow> BotMaestroSDK \<Rightarrow> request list \<Rightarrow> string \<Rightarrow> string \<Rightarrow> string \<Rightarrow> string
    \<Rightarrow> (exn + 'sm) \<times> request list" where
  "alert env self net task_id title a_message alert_type =
     ensure_access_token self net
       (let url = fmt_opt (p_server self) @ ''/app/api/alert/send'';
            data = [(''taskId'', PStr task_id), (''title'', PStr title),
                    (''message'', PStr a_message), (''type'', PStr alert_type),
                    (''access_token'', p_access_token self)];
            (req, net') = requests_post env net url data []
        in if status_code req = 200 then (ServerMessage_from_json env (resp_text req), net')
           else (Inl (ValueError [''Error during alert. %s'', resp_text req]), net'))"

text \<open>\<^verbatim>\<open>message\<close> (lines 145-176): \<^verbatim>\<open>req.json()\<close> of the \<^verbatim>\<open>else\<close> branch is not guarded.\<close>

definition message ::
  "('sm, 'task) env \<Rightarrow> BotMaestroSDK \<Rightarrow> request list \<Rightarrow> string list \<Rightarrow> string list
    \<Rightarrow> string \<Rightarrow> string \<Rightarrow> string \<Rightarrow> string \<Rightarrow> (exn + 'sm) \<times> request list" where
  "message env self net email users subject body msg_type a_group =
     ensure_access_token self net
       (let url = fmt_opt (p_server self) @ ''/app/api/message/send'';
            email_str = join '','' email;
            users_str = join '','' users;
            data = [(''email'', PStr email_str), (''users'', PStr users_str),
                    (''subject'', PStr subject), (''body'', PStr body),
                    (''type'', PStr msg_type), (''group'', PStr a_group),
                    (''access_token'', p_access_token self)];
            (req, net') = requests_post env net url data []
        in if status_code req = 200 then (ServerMessage_from_json env (resp_text req), net')
           else
             (case json_message env req of
                Inl e \<Rightarrow> (Inl e, net')
              | Inr m \<Rightarrow>
                  (Inl (ValueError [''Error during message. Server returned ''
                          @ fmt_d (status_code req) @ ''. '' @ fmt_s env m]), net')))"

text \<open>\<^verbatim>\<open>create_task\<close> (lines 178-206).\<close>

definition create_task ::
  "('sm, 'task) env \<Rightarrow> BotMaestroSDK \<Rightarrow> request list \<Rightarrow> string \<Rightarrow> (string \<times> pyval) list \<Rightarrow> bool
    \<Rightarrow> (exn + 'task) \<times> request list" where
  "create_task env self net activity_label parameters test =
     ensure_access_token self net
       (let url = fmt_opt (p_server self) @ ''/app/api/task/create'';
            data = [(''activityLabel'', PStr activity_label),
                    (''jsonParams'', PStr (dumps env (PDict parameters))),
                    (''taskForTest'', PStr (if test then ''true'' else ''false'')),
                    (''access_token'', p_access_token self)];
            (req, net') = requests_post env net url data []
        in if status_code req = 200 then
             (seq (seq (req_json env req) (\<lambda>j. dict_get j ''payload'' PNone))
                  (AutomationTask_from_json env), net')
           else (Inl (server_returned env ''Error during task create. Server returned '' req), net'))"

text \<open>\<^verbatim>\<open>finish_task\<close> (lines 208-238).\<close>

definition finish_task ::
  "('sm, 'task) env \<Rightarrow> BotMaestroSDK \<Rightarrow> request list \<Rightarrow> string \<Rightarrow> string \<Rightarrow> string
    \<Rightarrow> (exn + 'sm) \<times> request list" where
  "finish_task env self net task_id status a_message =
     ensure_access_token self net
       (let url = fmt_opt (p_server self) @ ''/app/api/task/finish'';
            processed_items = ''1'';
            data = [(''taskId'', PStr task_id), (''finishStatus'', PStr status),
                    (''finishMessage'', PStr a_message),
                    (''processedItems'', PStr processed_items),
                    (''access_token'', p_access_token self)];
            (req, net') = requests_post env net url data []
        in if status_code req = 200 then (ServerMessage_from_json env (resp_text req), net')
           else (Inl (server_returned env ''Error during task finish. Server returned '' req), net'))"

text \<open>\<^verbatim>\<open>restart_task\<close> (lines 240-263).\<close>

definition restart_task ::
  "('sm, 'task) env \<Rightarrow> BotMaestroSDK \<Rightarrow> request list \<Rightarrow> string \<Rightarrow> (exn + 'sm) \<times> request list" where
  "restart_task env self net task_id =
     ensure_access_token self net
       (let url = fmt_opt (p_server self) @ ''/app/api/task/restart'';
            data = [(''id'', PStr task_id), (''access_token'', p_access_token self)];
            (req, net') = requests_post env net url data []
        in if status_code req = 200 then (ServerMessage_from_json env (resp_text req), net')
           else (Inl (server_returned env ''Error during task restart. Server returned '' req), net'))"

text \<open>\<^verbatim>\<open>get_task\<close> (lines 265-289).\<close>

definition get_task ::
  "('sm, 'task) env \<Rightarrow> BotMaestroSDK \<Rightarrow> request list \<Rightarrow> string \<Rightarrow> (exn + 'task) \<times> request list" where
  "get_task env self net task_id =
     ensure_access_token self net
       (let url = fmt_opt (p_server self) @ ''/app/api/task/get'';
            data = [(''id'', PStr task_id), (''access_token'', p_access_token self)];
            (req, net') = requests_get env net url data
        in if status_code req = 200 then
             (let payload = PStr (resp_text req) in (AutomationTask_from_json env payload, net'))
           else (Inl (server_returned env ''Error during task get. Server returned '' req), net'))"

text \<open>
  Modelled from the spec: \<^verbatim>\<open>model.Column\<close>, a dataclass that is not under src/; the
  spec has it as the pair of a name and a label (section 3), and \<^verbatim>\<open>asdict\<close> of a
  dataclass is the dictionary of its fields in their order.
\<close>

datatype Column = Column string string

fun asdict :: "Column \<Rightarrow> pyval" where
  "asdict (Column name label) = PDict [(''name'', PStr name), (''label'', PStr label)]"

text \<open>\<^verbatim>\<open>new_log\<close> (lines 291-317).\<close>

definition new_log ::
  "('sm, 'task) env \<Rightarrow> BotMaestroSDK \<Rightarrow> request list \<Rightarrow> string \<Rightarrow> Column list
    \<Rightarrow> (exn + 'sm) \<times> request list" where
  "new_log env self net activity_label columns =
     ensure_access_token self net
       (let url = fmt_opt (p_server self) @ ''/app/api/log/create'';
            cols = map asdict columns;
            data = [(''activityLabel'', PStr activity_label),
                    (''columns'', PStr (dumps env (PList cols))),
                    (''access_token'', p_access_token self)];
            (req, net') = requests_post env net url data []
        in if status_code req = 200 then (ServerMessage_from_json env (resp_text req), net')
           else (Inl (server_returned env ''Error during new log. Server returned '' req), net'))"

text \<open>\<^verbatim>\<open>new_log_entry\<close> (lines 319-345).\<close>

definition new_log_entry ::
  "('sm, 'task) env \<Rightarrow> BotMaestroSDK \<Rightarrow> request list \<Rightarrow> string \<Rightarrow> (string \<times> pyval) list
    \<Rightarrow> (exn + 'sm) \<times> request list" where
  "new_log_entry env self net activity_label values =
     ensure_access_token self net
       (let url = fmt_opt (p_server self) @ ''/app/api/newLogEntry'';
            data = [(''logName'', PStr activity_label),
                    (''columns'', PStr (dumps env (PDict values))),
                    (''access_token'', p_access_token self)];
            (req, net') = requests_post env net url data []
        in if status_code req = 200 then (ServerMessage_from_json env (resp_text req), net')
           else (Inl (server_returned env ''Error during new log entry. Server returned '' req), net'))"

text \<open>
  \<^verbatim>\<open>json.loads(v)\<close> of a value: only a string can be decoded. Iterating a value in a
  comprehension: a list gives its elements, a dictionary its keys, a string its
  characters; nothing else can be iterated.
\<close>

definition json_loads :: "('sm, 'task) env \<Rightarrow> pyval \<Rightarrow> exn + pyval" where
  "json_loads env v =
     (case v of
        PStr s \<Rightarrow> (case loads env s of None \<Rightarrow> Inl JSONDecodeError | Some x \<Rightarrow> Inr x)
      | _ \<Rightarrow> Inl TypeError)"

definition py_iter :: "pyval \<Rightarrow> exn + pyval list" where
  "py_iter v =
     (case v of
        PList xs \<Rightarrow> Inr xs
      | PDict kvs \<Rightarrow> Inr (map (\<lambda>kv. PStr (fst kv)) kvs)
      | PStr s \<Rightarrow> Inr (map (\<lambda>c. PStr [c]) s)
      | _ \<Rightarrow> Inl TypeError)"

text \<open>
  \<^verbatim>\<open>[entry.get('columns') for entry in entries]\<close>: the entries are visited in order and
  the first one that is not a dictionary raises.
\<close>

fun get_columns :: "pyval list \<Rightarrow> exn + pyval list" where
  "get_columns [] = Inr []"
| "get_columns (entry # entries) =
     seq (dict_get entry ''columns'' PNone) (\<lambda>c. seq (get_columns entries) (\<lambda>cs. Inr (c # cs)))"

text \<open>\<^verbatim>\<open>get_log\<close> (lines 347-375).\<close>

definition get_log ::
  "('sm, 'task) env \<Rightarrow> BotMaestroSDK \<Rightarrow> request list \<Rightarrow> string \<Rightarrow> string option
    \<Rightarrow> (exn + pyval list) \<times> request list" where
  "get_log env self net activity_label date =
     ensure_access_token self net
       (let url = fmt_opt (p_server self) @ ''/app/api/log/read'';
            data = [(''activityLabel'', PStr activity_label), (''date'', opt_val date),
                    (''access_token'', p_access_token self)];
            (req, net') = requests_get env net url data
        in if status_code req = 200 then
             (seq (req_json env req) (\<lambda>j.
                seq (getitem j ''message'') (\<lambda>m.
                  seq (json_loads env m) (\<lambda>entries.
                    seq (py_iter entries) get_columns))), net')
           else (Inl (server_returned env ''Error during log read. Server returned '' req), net'))"

text \<open>\<^verbatim>\<open>delete_log\<close> (lines 377-404).\<close>

definition delete_log ::
  "('sm, 'task) env \<Rightarrow> BotMaestroSDK \<Rightarrow> request list \<Rightarrow> string \<Rightarrow> (exn + 'sm) \<times> request list" where
  "delete_log env self net activity_label =
     ensure_access_token self net
       (let url = fmt_opt (p_server self) @ ''/app/api/log/delete'';
            data = [(''activityLabel'', PStr activity_label), (''access_token'', p_access_token self)];
            (req, net') = requests_post env net url data []
        in if status_code req = 200 then (ServerMessage_from_json env (resp_text req), net')
           else (Inl (server_returned env ''Error during log delete. Server returned '' req), net'))"

text \<open>
  \<^verbatim>\<open>post_artifact\<close> (lines 406-443). The file is opened while the \<^verbatim>\<open>files\<close> dictionary
  is built, before the request: a file that cannot be opened raises there.
\<close>

definition post_artifact ::
  "('sm, 'task) env \<Rightarrow> BotMaestroSDK \<Rightarrow> request list \<Rightarrow> int \<Rightarrow> string \<Rightarrow> string
    \<Rightarrow> (exn + 'sm) \<times> request list" where
  "post_artifact env self net task_id artifact_name filepath =
     ensure_access_token self net
       (let url = fmt_opt (p_server self) @ ''/app/api/newArtifact'';
            data = [(''taskId'', PInt task_id), (''name'', PStr artifact_name),
                    (''access_token'', p_access_token self)]
        in case open_rb env filepath of
             Inl e \<Rightarrow> (Inl e, net)
           | Inr content \<Rightarrow>
               (let files = [(''body'', artifact_name, content, ''application/octet-stream'',
                              [(''Expires'', ''0'')])];
                    (req, net') = requests_post env net url data files
                in if status_code req = 200 then (ServerMessage_from_json env (resp_text req), net')
                   else (Inl (server_returned env ''Error during artifact posting. Server returned '' req),
                         net')))"

subsection \<open>Strings: \<^verbatim>\<open>rfind\<close> and slices\<close>

text \<open>
  \<^verbatim>\<open>s.rfind(c)\<close> for a one-character \<open>c\<close>: the highest index of \<open>c\<close> in \<open>s\<close>, or \<open>-1\<close>.
\<close>

fun rfind :: "'a list \<Rightarrow> 'a \<Rightarrow> int" where
  "rfind [] c = - 1"
| "rfind (x # xs) c =
     (let r = rfind xs c in if 0 \<le> r then r + 1 else if x = c then 0 else - 1)"

text \<open>
  A slice bound as Python reads it: a negative bound counts from the end, and every
  bound is clamped into \<open>0..len\<close>. \<^verbatim>\<open>s[lo:hi]\<close> with an omitted bound written \<open>None\<close>.
\<close>

definition slice_bound :: "nat \<Rightarrow> int \<Rightarrow> nat" where
  "slice_bound n i = (if i < 0 then nat (max 0 (int n + i)) else min n (nat i))"

definition py_slice :: "'a list \<Rightarrow> int option \<Rightarrow> int option \<Rightarrow> 'a list" where
  "py_slice s lo hi =
     (let n = length s;
          a = (case lo of None \<Rightarrow> 0 | Some i \<Rightarrow> slice_bound n i);
          b = (case hi of None \<Rightarrow> n | Some j \<Rightarrow> slice_bound n j)
      in take (b - a) (drop a s))"

text \<open>The two lines that cut the file name out of the header (lines 464-465).\<close>

definition artifact_filename :: "string \<Rightarrow> string" where
  "artifact_filename h_content =
     (let filename = py_slice h_content (Some (rfind h_content CHR ''='' + 2)) (Some (- 1))
      in py_slice filename None (Some (rfind filename CHR ''_''))
         @ py_slice filename (Some (rfind filename CHR ''.'')) None)"

text \<open>
  \<^verbatim>\<open>get_artifact\<close> (lines 445-473). The headers of a response are looked up without
  regard to case, and a missing header raises \<open>KeyError\<close> with the lower-case name.
\<close>

definition get_artifact ::
  "('sm, 'task) env \<Rightarrow> BotMaestroSDK \<Rightarrow> request list \<Rightarrow> int
    \<Rightarrow> (exn + string \<times> bytes) \<times> request list" where
  "get_artifact env self net artifact_id =
     ensure_access_token self net
       (let url = fmt_opt (p_server self) @ ''/app/api/artifact/get'';
            data = [(''id'', PInt artifact_id), (''access_token'', p_access_token self)];
            (req, net') = requests_get env net url data
        in if status_code req = 200 then
             (case resp_headers req ''Content-Disposition'' of
                None \<Rightarrow> (Inl (KeyError ''content-disposition''), net')
              | Some h_content \<Rightarrow> (Inr (artifact_filename h_content, resp_content req), net'))
           else (Inl (server_returned env ''Error during artifact get. Server returned '' req), net'))"

section \<open>Calling any authenticated method\<close>

text \<open>
  The twelve methods that carry the decorator, as one type of calls, so that a property
  of every authenticated operation is one statement. \<open>invoke\<close> only dispatches.
\<close>

datatype call =
    Alert string string string string
  | Message "string list" "string list" string string string string
  | Create_task string "(string \<times> pyval) list" bool
  | Finish_task string string string
  | Restart_task string
  | Get_task string
  | New_log string "Column list"
  | New_log_entry string "(string \<times> pyval) list"
  | Get_log string "string option"
  | Delete_log string
  | Post_artifact int string string
  | Get_artifact int

datatype ('sm, 'task) result =
    RServerMessage 'sm
  | RAutomationTask 'task
  | RLog "pyval list"
  | RArtifact string bytes

definition returning :: "('a \<Rightarrow> 'b) \<Rightarrow> (exn + 'a) \<times> request list \<Rightarrow> (exn + 'b) \<times> request list" where
  "returning f r = (map_sum id f (fst r), snd r)"

fun invoke ::
  "('sm, 'task) env \<Rightarrow> BotMaestroSDK \<Rightarrow> request list \<Rightarrow> call
    \<Rightarrow> (exn + ('sm, 'task) result) \<times> request list" where
  "invoke env self net (Alert task_id title a_message alert_type) =
     returning RServerMessage (alert env self net task_id title a_message alert_type)"
| "invoke env self net (Message email users subject body msg_type a_group) =
     returning RServerMessage (message env self net email users subject body msg_type a_group)"
| "invoke env self net (Create_task activity_label parameters test) =
     returning RAutomationTask (create_task env self net activity_label parameters test)"
| "invoke env self net (Finish_task task_id status a_message) =
     returning RServerMessage (finish_task env self net task_id status a_message)"
| "invoke env self net (Restart_task task_id) =
     returning RServerMessage (restart_task env self net task_id)"
| "invoke env self net (Get_task task_id) =
     returning RAutomationTask (get_task env self net task_id)"
| "invoke env self net (New_log activity_label columns) =
     returning RServerMessage (new_log env self net activity_label columns)"
| "invoke env self net (New_log_entry activity_label values) =
     returning RServerMessage (new_log_entry env self net activity_label values)"
| "invoke env self net (Get_log activity_label date) =
     returning RLog (get_log env self net activity_label date)"
| "invoke env self net (Delete_log activity_label) =
     returning RServerMessage (delete_log env self net activity_label)"
| "invoke env self net (Post_artifact task_id artifact_name filepath) =
     returning RServerMessage (post_artifact env self net task_id artifact_name filepath)"
| "invoke env self net (Get_artifact artifact_id) =
     returning (\<lambda>r. RArtifact (fst r) (snd r)) (get_artifact env self net artifact_id)"

text \<open>
  What a request carries and how it was sent: the form fields of a \<open>POST\<close> or the query
  parameters of a \<open>GET\<close>. \<open>uses_get\<close> names the three methods that call
  \<^verbatim>\<open>requests.get\<close>; the other nine call \<^verbatim>\<open>requests.post\<close>. \<open>unreadable\<close> holds of a
  \<^verbatim>\<open>post_artifact\<close> whose file cannot be opened.
\<close>

definition request_fields :: "request \<Rightarrow> (string \<times> pyval) list" where
  "request_fields r = (case r of POST url data files \<Rightarrow> data | GET url params \<Rightarrow> params)"

definition is_GET :: "request \<Rightarrow> bool" where
  "is_GET r = (case r of POST url data files \<Rightarrow> False | GET url params \<Rightarrow> True)"

definition uses_get :: "call \<Rightarrow> bool" where
  "uses_get c =
     (case c of Get_task task_id \<Rightarrow> True | Get_log activity_label date \<Rightarrow> True
      | Get_artifact artifact_id \<Rightarrow> True | _ \<Rightarrow> False)"

definition unreadable :: "('sm, 'task) env \<Rightarrow> call \<Rightarrow> bool" where
  "unreadable env c =
     (case c of
        Post_artifact task_id artifact_name filepath \<Rightarrow>
          (case open_rb env filepath of Inl e \<Rightarrow> True | Inr content \<Rightarrow> False)
      | _ \<Rightarrow> False)"

section \<open>A concrete portal for the examples\<close>

text \<open>
  The theorems below hold for every environment. Their examples run in this one: a
  decoder for the JSON that the examples use (objects, arrays, strings with the simple
  escapes, integers, \<open>true\<close>, \<open>false\<close>, \<open>null\<close>; it answers \<open>None\<close> on anything else),
  and a portal that gives one fixed answer to every request.
\<close>

definition is_ws :: "char \<Rightarrow> bool" where
  "is_ws c = (c = CHR '' '' \<or> c = CHR 0x09 \<or> c = CHR 0x0A \<or> c = CHR 0x0D)"

definition skip_ws :: "string \<Rightarrow> string" where
  "skip_ws s = dropWhile is_ws s"

definition is_digit :: "char \<Rightarrow> bool" where
  "is_digit c = (c \<in> set ''0123456789'')"

definition digit_val :: "char \<Rightarrow> nat" where
  "digit_val c = of_char c - 48"

definition unescape :: "char \<Rightarrow> char option" where
  "unescape e =
     (if e = CHR 0x22 \<or> e = CHR 0x5C \<or> e = CHR ''/'' then Some e
      else if e = CHR ''n'' then Some (CHR 0x0A)
      else if e = CHR ''t'' then Some (CHR 0x09)
      else if e = CHR ''r'' then Some (CHR 0x0D)
      else None)"

text \<open>The characters of a string up to its closing quote, and what follows the quote.\<close>

fun scan_string :: "string \<Rightarrow> (string \<times> string) option" where
  "scan_string [] = None"
| "scan_string [c] = (if c = CHR 0x22 then Some ([], []) else None)"
| "scan_string (c # e # cs) =
     (if c = CHR 0x22 then Some ([], e # cs)
      else if c = CHR 0x5C then
        (case unescape e of
           None \<Rightarrow> None
         | Some u \<Rightarrow> map_option (apfst ((#) u)) (scan_string cs))
      else map_option (apfst ((#) c)) (scan_string (e # cs)))"

definition scan_int :: "string \<Rightarrow> (int \<times> string) option" where
  "scan_int s =
     (let neg = (s \<noteq> [] \<and> hd s = CHR ''-'');
          t = (if neg then tl s else s);
          ds = takeWhile is_digit t;
          r = dropWhile is_digit t;
          n = int (foldl (\<lambda>a c. 10 * a + digit_val c) 0 ds)
      in if ds = [] \<or> (r \<noteq> [] \<and> hd r \<in> set ''.eE'') then None
         else Some (if neg then - n else n, r))"

definition literal :: "string \<Rightarrow> pyval \<Rightarrow> string \<Rightarrow> (pyval \<times> string) option" where
  "literal w v s = (if take (length w) s = w then Some (v, drop (length w) s) else None)"

text \<open>The first argument bounds the nesting and the number of items.\<close>

fun decode :: "nat \<Rightarrow> string \<Rightarrow> (pyval \<times> string) option"
and decode_items :: "nat \<Rightarrow> string \<Rightarrow> (pyval list \<times> string) option"
and decode_members :: "nat \<Rightarrow> string \<Rightarrow> ((string \<times> pyval) list \<times> string) option" where
  "decode 0 s = None"
| "decode (Suc n) s =
     (case skip_ws s of
        [] \<Rightarrow> None
      | c # cs \<Rightarrow>
          if c = CHR ''{'' then
            (if take 1 (skip_ws cs) = ''}'' then Some (PDict [], drop 1 (skip_ws cs))
             else map_option (apfst PDict) (decode_members n cs))
          else if c = CHR ''['' then
            (if take 1 (skip_ws cs) = '']'' then Some (PList [], drop 1 (skip_ws cs))
             else map_option (apfst PList) (decode_items n cs))
          else if c = CHR 0x22 then map_option (apfst PStr) (scan_string cs)
          else if c = CHR ''t'' then literal ''true'' (PBool True) (c # cs)
          else if c = CHR ''f'' then literal ''false'' (PBool False) (c # cs)
          else if c = CHR ''n'' then literal ''null'' PNone (c # cs)
          else map_option (apfst PInt) (scan_int (c # cs)))"
| "decode_items 0 s = None"
| "decode_items (Suc n) s =
     (case decode n s of
        None \<Rightarrow> None
      | Some (v, r) \<Rightarrow>
          (case skip_ws r of
             [] \<Rightarrow> None
           | c # cs \<Rightarrow>
               if c = CHR '']'' then Some ([v], cs)
               else if c = CHR '','' then map_option (apfst ((#) v)) (decode_items n cs)
               else None))"
| "decode_members 0 s = None"
| "decode_members (Suc n) s =
     (case skip_ws s of
        [] \<Rightarrow> None
      | q # s1 \<Rightarrow>
          if q \<noteq> CHR 0x22 then None
          else
            (case scan_string s1 of
               None \<Rightarrow> None
             | Some (k, s2) \<Rightarrow>
                 (case skip_ws s2 of
                    [] \<Rightarrow> None
                  | d # s3 \<Rightarrow>
                      if d \<noteq> CHR '':'' then None
                      else
                        (case decode n s3 of
                           None \<Rightarrow> None
                         | Some (v, s4) \<Rightarrow>
                             (case skip_ws s4 of
                                [] \<Rightarrow> None
                              | c # cs \<Rightarrow>
                                  if c = CHR ''}'' then Some ([(k, v)], cs)
                                  else if c = CHR '','' then
                                    map_option (apfst ((#) (k, v))) (decode_members n cs)
                                  else None)))))"

definition json_decode :: "string \<Rightarrow> pyval option" where
  "json_decode s =
     (case decode (Suc (length s)) s of
        None \<Rightarrow> None
      | Some (v, r) \<Rightarrow> if skip_ws r = [] then Some v else None)"

text \<open>
  In the portal of the examples a server message is its text, a task is its payload,
  no file can be opened, and \<open>answer\<close> is the response to every request. The encoder
  and \<open>str()\<close> of a value that is not a string answer a fixed text: no example
  depends on them.
\<close>

definition portal :: "response \<Rightarrow> (string, pyval) env" where
  "portal answer =
     \<lparr>transport = (\<lambda>net r. answer), loads = json_decode, dumps = (\<lambda>v. ''{}''),
      repr = (\<lambda>v. ''?''), open_rb = (\<lambda>path. Inl (OSError path)),
      ServerMessage_from_json = Inr, AutomationTask_from_json = Inr\<rparr>"

definition http_response :: "int \<Rightarrow> string \<Rightarrow> response" where
  "http_response code body =
     \<lparr>status_code = code, resp_text = body, resp_content = [], resp_headers = Map.empty\<rparr>"

text \<open>A client that holds the token \<open>T\<close>, as a successful login leaves it.\<close>

definition session :: BotMaestroSDK where
  "session = \<lparr>p_server = Some ''http://x'', p_login = Some ''bot'', p_key = Some ''k'',
              p_access_token = PStr ''T''\<rparr>"

text \<open>
  The bodies of the examples of \<^verbatim>\<open>get_log\<close>: an object whose \<^verbatim>\<open>message\<close> is the text
  of an array, written as a JSON string (its quotes and backslashes escaped with a
  backslash). \<open>log_body\<close> is the body
  \<^verbatim>\<open>{"message": "[{\"columns\":{\"a\":1}},{\"columns\":{\"a\":2}}]"}\<close> of the spec.
\<close>

definition json_quote :: "string \<Rightarrow> string" where
  "json_quote s =
     CHR 0x22 # concat (map (\<lambda>c. if c = CHR 0x22 \<or> c = CHR 0x5C then [CHR 0x5C, c] else [c]) s)
       @ [CHR 0x22]"

definition message_body :: "string \<Rightarrow> string" where
  \<open>message_body m = ''{"message": '' @ json_quote m @ ''}''\<close>

definition log_body :: string where
  \<open>log_body = message_body ''[{"columns":{"a":1}},{"columns":{"a":2}}]''\<close>

definition log_body_gap :: string where
  \<open>log_body_gap = message_body ''[{"columns":{"a":1}},{"b":2}]''\<close>

text \<open>The answer to \<^verbatim>\<open>get_artifact\<close>: status 200, the header and the content.\<close>

definition artifact_response :: "string \<Rightarrow> bytes \<Rightarrow> response" where
  "artifact_response disposition content =
     \<lparr>status_code = 200, resp_text = [], resp_content = content,
      resp_headers = [''Content-Disposition'' \<mapsto> disposition]\<rparr>"

section \<open>Configuration of the server address\<close>

text \<open>
  C7. Storing a server address strips exactly one trailing \<open>/\<close> and issues no request
  (neither the setter nor the constructor takes or returns the list of requests). For
  every address \<open>s\<close> that does not end in \<open>/\<close>, storing \<open>s/\<close> leaves the client in the
  same state as storing \<open>s\<close>, through the setter and through the constructor, and the
  stored address is \<open>s\<close>. For every \<open>t\<close>, also one that ends in \<open>/\<close>, storing \<open>t/\<close>
  stores \<open>t\<close>: one slash is taken, not more.
\<close>

theorem server_setter_strips_one_slash:
  assumes "\<not> (s \<noteq> [] \<and> last s = CHR ''/'')"
  shows "set_server self (Some (s @ ''/'')) = set_server self (Some s)
       \<and> p_server (set_server self (Some s)) = Some s
       \<and> init (Some (s @ ''/'')) l k = init (Some s) l k
       \<and> p_server (init (Some s) l k) = Some s
       \<and> (\<forall>t. p_server (set_server self (Some (t @ ''/''))) = Some t)"
  using assms by (auto simp add: set_server_def init_def)

theorem server_setter_witness:
  "set_server session (Some ''http://x/'') = set_server session (Some ''http://x'')
   \<and> p_server (init (Some ''http://x/'') None None) = Some ''http://x''
   \<and> p_server (init (Some ''http://x'') None None) = Some ''http://x''
   \<and> p_server (set_server session (Some ''http://x//'')) = Some ''http://x/''"
  using server_setter_strips_one_slash [of "''http://x''" session None None]
  by (simp add: set_server_def init_def)

section \<open>Login: overrides, validation and the token\<close>

lemma login_overrides_token:
  "p_access_token (login_overrides self a_server a_login a_key) = p_access_token self"
  by (simp add: login_overrides_def set_server_def Let_def)

lemma login_overrides_fields:
  "p_server (login_overrides self a_server a_login a_key) =
     (if truthy a_server then p_server (set_server self a_server) else p_server self)"
  "p_login (login_overrides self a_server a_login a_key) = py_or a_login (p_login self)"
  "p_key (login_overrides self a_server a_login a_key) = py_or a_key (p_key self)"
  by (simp_all add: login_overrides_def set_server_def Let_def)

lemma login_invalid:
  assumes "c = login_overrides self a_server a_login a_key"
      and "\<not> truthy (p_server c) \<or> \<not> truthy (p_login c) \<or> \<not> truthy (p_key c)"
  shows "login env self net a_server a_login a_key =
           (Inl (ValueError [if \<not> truthy (p_server c) then ''Server is required.''
                             else if \<not> truthy (p_login c) then ''Login is required.''
                             else ''Key is required.'']), c, net)"
  using assms by (auto simp add: login_def Let_def)

lemma login_credentials:
  assumes "snd (login env self net a_server a_login a_key) = (self', net')"
  shows "p_server self' = p_server (login_overrides self a_server a_login a_key)
       \<and> p_login self' = p_login (login_overrides self a_server a_login a_key)
       \<and> p_key self' = p_key (login_overrides self a_server a_login a_key)"
  using assms
  by (auto simp add: login_def Let_def logoff_def requests_post_def
        split: if_splits sum.splits prod.splits)

text \<open>
  C5. Let \<open>c\<close> be the client after the arguments of \<^verbatim>\<open>login\<close> have been applied to the
  stored credentials. If any of its server, login or key is empty (\<open>None\<close> or the empty
  string), \<^verbatim>\<open>login\<close> raises \<open>ValueError\<close> with the message that names the first missing
  field, in the order server, login, key, and the list of requests is the one it was
  given: no HTTP request is issued.
\<close>

theorem login_requires_credentials:
  assumes "c = login_overrides self a_server a_login a_key"
      and "\<not> truthy (p_server c) \<or> \<not> truthy (p_login c) \<or> \<not> truthy (p_key c)"
  shows "login env self net a_server a_login a_key =
           (Inl (ValueError [if \<not> truthy (p_server c) then ''Server is required.''
                             else if \<not> truthy (p_login c) then ''Login is required.''
                             else ''Key is required.'']), c, net)"
  using assms by (rule login_invalid)

theorem login_requires_credentials_witness:
  "login (portal (http_response 200 ''{}'')) (init None (Some ''bot'') None) []
       (Some ''http://x/'') None (Some [])
     = (Inl (ValueError [''Key is required.'']),
        \<lparr>p_server = Some ''http://x'', p_login = Some ''bot'', p_key = None,
         p_access_token = PNone\<rparr>, [])"
proof -
  let ?c = "\<lparr>p_server = Some ''http://x'', p_login = Some ''bot'', p_key = None,
             p_access_token = PNone\<rparr>"
  have c: "?c = login_overrides (init None (Some ''bot'') None) (Some ''http://x/'') None (Some [])"
    by code_simp
  have missing: "\<not> truthy (p_server ?c) \<or> \<not> truthy (p_login ?c) \<or> \<not> truthy (p_key ?c)"
    by (simp add: truthy_def)
  from login_requires_credentials [OF c missing]
  show ?thesis by (simp add: truthy_def)
qed

text \<open>
  C9. If \<^verbatim>\<open>login\<close> fails its validation of the credentials (any of server, login or key
  is empty after the arguments have been applied), the stored access token is the one
  from before the call: the checks raise before \<^verbatim>\<open>logoff()\<close> runs, so a session that
  held a token still holds it. No request is issued and the outcome is a \<open>ValueError\<close>.
\<close>

theorem failed_validation_keeps_token:
  assumes "c = login_overrides self a_server a_login a_key"
      and "\<not> truthy (p_server c) \<or> \<not> truthy (p_login c) \<or> \<not> truthy (p_key c)"
  shows "p_access_token (fst (snd (login env self net a_server a_login a_key))) = p_access_token self
       \<and> snd (snd (login env self net a_server a_login a_key)) = net
       \<and> (\<exists>m. fst (login env self net a_server a_login a_key) = Inl (ValueError [m]))"
  using login_invalid [OF assms, of env net] assms(1) by (simp add: login_overrides_token)

theorem failed_validation_keeps_token_witness:
  "p_access_token (fst (snd (login (portal (http_response 200 ''{}'')) (session\<lparr>p_key := None\<rparr>) []
       None None None))) = PStr ''T''"
proof -
  let ?c = "session\<lparr>p_key := None\<rparr>"
  have c: "?c = login_overrides ?c None None None"
    by code_simp
  have missing: "\<not> truthy (p_server ?c) \<or> \<not> truthy (p_login ?c) \<or> \<not> truthy (p_key ?c)"
    by (simp add: truthy_def)
  from failed_validation_keeps_token [OF c missing, of "portal (http_response 200 ''{}'')" "[]"]
  show ?thesis by (simp add: session_def)
qed

text \<open>
  C6, as the code has it. After a call of \<^verbatim>\<open>login\<close>, whatever its outcome: a server
  argument that is not empty is stored with one trailing \<open>/\<close> taken off if it ends in
  one (the setter of \<^verbatim>\<open>server\<close> runs), and as it is otherwise; a login or key argument
  that is not empty is stored as it is; and a credential whose argument is \<open>None\<close> or
  the empty string keeps its stored value.
\<close>

theorem login_overrides_stored_credentials:
  assumes "login env self net a_server a_login a_key = (out, self', net')"
  shows "(\<forall>s. a_server = Some s \<and> s \<noteq> [] \<longrightarrow>
            p_server self' = Some (if last s = CHR ''/'' then butlast s else s))
       \<and> (\<not> truthy a_server \<longrightarrow> p_server self' = p_server self)
       \<and> (truthy a_login \<longrightarrow> p_login self' = a_login)
       \<and> (\<not> truthy a_login \<longrightarrow> p_login self' = p_login self)
       \<and> (truthy a_key \<longrightarrow> p_key self' = a_key)
       \<and> (\<not> truthy a_key \<longrightarrow> p_key self' = p_key self)"
proof -
  from assms have "snd (login env self net a_server a_login a_key) = (self', net')"
    by simp
  from login_credentials [OF this] show ?thesis
    by (auto simp add: login_overrides_fields set_server_def py_or_def truthy_def)
qed

theorem login_overrides_stored_credentials_witness:
  \<open>login (portal (http_response 200 ''{"access_token":"T"}''))
       (init (Some ''http://old'') (Some ''bot'') (Some ''k'')) [] (Some ''http://x/'') None (Some ''k2'')
     = (Inr (), \<lparr>p_server = Some ''http://x'', p_login = Some ''bot'', p_key = Some ''k2'',
                 p_access_token = PStr ''T''\<rparr>,
        [POST ''http://x/app/api/login'' [(''userLogin'', PStr ''bot''), (''key'', PStr ''k2'')] []])
   \<and> p_server \<lparr>p_server = Some ''http://x'', p_login = Some ''bot'', p_key = Some ''k2'',
                p_access_token = PStr ''T''\<rparr> = Some (butlast ''http://x/'')
   \<and> p_login \<lparr>p_server = Some ''http://x'', p_login = Some ''bot'', p_key = Some ''k2'',
               p_access_token = PStr ''T''\<rparr> = p_login (init (Some ''http://old'') (Some ''bot'') (Some ''k''))\<close>
proof -
  have run: \<open>login (portal (http_response 200 ''{"access_token":"T"}''))
       (init (Some ''http://old'') (Some ''bot'') (Some ''k'')) [] (Some ''http://x/'') None (Some ''k2'')
     = (Inr (), \<lparr>p_server = Some ''http://x'', p_login = Some ''bot'', p_key = Some ''k2'',
                 p_access_token = PStr ''T''\<rparr>,
        [POST ''http://x/app/api/login'' [(''userLogin'', PStr ''bot''), (''key'', PStr ''k2'')] []])\<close>
    by code_simp
  from login_overrides_stored_credentials [OF run] run
  show ?thesis by (simp add: truthy_def)
qed

theorem login_server_override_counterexample:
  \<open>p_server (fst (snd (login (portal (http_response 200 ''{"access_token":"T"}''))
       (init None (Some ''bot'') (Some ''k'')) [] (Some ''http://x/'') None None)))
     = Some ''http://x''
   \<and> p_server (fst (snd (login (portal (http_response 200 ''{"access_token":"T"}''))
       (init None (Some ''bot'') (Some ''k'')) [] (Some ''http://x/'') None None)))
     \<noteq> Some ''http://x/''\<close>
  by code_simp

section \<open>The token guard and the token on the wire\<close>

lemmas method_defs =
  alert_def message_def create_task_def finish_task_def restart_task_def get_task_def
  new_log_def new_log_entry_def get_log_def delete_log_def post_artifact_def get_artifact_def

lemma ensure_access_token_None:
  "p_access_token obj = PNone \<Longrightarrow>
     ensure_access_token obj net func =
       (Inl (RuntimeError ''Access Token not available. Make sure to invoke login first.''), net)"
  by (simp add: ensure_access_token_def)

lemma ensure_access_token_Some:
  "p_access_token obj \<noteq> PNone \<Longrightarrow> ensure_access_token obj net func = func"
  by (simp add: ensure_access_token_def)

lemma invoke_without_token:
  assumes "p_access_token self = PNone"
  shows "invoke env self net c =
           (Inl (RuntimeError ''Access Token not available. Make sure to invoke login first.''), net)"
  by (cases c) (simp_all add: method_defs ensure_access_token_None [OF assms] returning_def)

lemma init_token: "p_access_token (init server a_login key) = PNone"
  by (simp add: init_def set_server_def)

lemma logoff_token: "p_access_token (logoff self) = PNone"
  by (simp add: logoff_def)

lemma invoke_attaches_token:
  assumes "p_access_token self \<noteq> PNone"
  shows "(unreadable env c \<and> snd (invoke env self net c) = net)
       \<or> (\<not> unreadable env c \<and> (\<exists>r. snd (invoke env self net c) = net @ [r]
             \<and> map_of (request_fields r) ''access_token'' = Some (p_access_token self)
             \<and> is_GET r = uses_get c))"
  by (cases c)
     (auto simp add: method_defs ensure_access_token_Some [OF assms] returning_def unreadable_def
        uses_get_def requests_post_def requests_get_def Let_def request_fields_def is_GET_def
        split: sum.splits option.splits)

text \<open>
  C2. For each of the twelve authenticated operations (\<open>c\<close> ranges over their calls), a
  client whose stored token is absent makes the call raise \<open>RuntimeError\<close> (``Access
  Token not available. Make sure to invoke login first.'') and the list of requests is
  unchanged: nothing reaches the network. The token is absent in a client that was
  just constructed (login was never called) and in a client after \<^verbatim>\<open>logoff\<close>.
\<close>

theorem no_token_no_request:
  "(p_access_token self = PNone \<longrightarrow>
      invoke env self net c =
        (Inl (RuntimeError ''Access Token not available. Make sure to invoke login first.''), net))
   \<and> invoke env (init server a_login key) net c =
        (Inl (RuntimeError ''Access Token not available. Make sure to invoke login first.''), net)
   \<and> invoke env (logoff self) net c =
        (Inl (RuntimeError ''Access Token not available. Make sure to invoke login first.''), net)"
  by (simp add: invoke_without_token init_token logoff_token)

theorem no_token_no_request_witness:
  "invoke (portal (http_response 200 ''ok'')) (session\<lparr>p_access_token := PNone\<rparr>) [] (Get_task ''7'')
     = (Inl (RuntimeError ''Access Token not available. Make sure to invoke login first.''), [])
   \<and> invoke (portal (http_response 200 ''ok'')) (init (Some ''http://x'') (Some ''bot'') (Some ''k'')) []
        (Get_task ''7'')
     = (Inl (RuntimeError ''Access Token not available. Make sure to invoke login first.''), [])
   \<and> invoke (portal (http_response 200 ''ok'')) (logoff session) [] (Get_task ''7'')
     = (Inl (RuntimeError ''Access Token not available. Make sure to invoke login first.''), [])"
  using no_token_no_request [of "session\<lparr>p_access_token := PNone\<rparr>" "portal (http_response 200 ''ok'')"
      "[]" "Get_task ''7''" "Some ''http://x''" "Some ''bot''" "Some ''k''"]
    no_token_no_request [of session "portal (http_response 200 ''ok'')" "[]" "Get_task ''7''"]
  by simp

text \<open>
  C4. Let \<open>c\<close> be the client after the arguments of \<^verbatim>\<open>login\<close> have been applied, with
  server, login and key not empty, \<open>r\<close> the request that \<^verbatim>\<open>login\<close> posts and \<open>resp\<close> the
  portal's response to it. If \<open>resp\<close> has status 200 and its body decodes to an object
  whose \<^verbatim>\<open>access_token\<close> is the string \<open>T\<close>, \<^verbatim>\<open>login\<close> returns and the stored token is
  \<open>T\<close>. If the status is not 200, \<^verbatim>\<open>login\<close> raises \<open>ValueError\<close> with the status code and
  the response body in its message. And for every client that holds the token \<open>T\<close> and
  every authenticated call: the call issues exactly one request, which carries
  \<^verbatim>\<open>access_token\<close> = \<open>T\<close> among its form fields when it is a \<open>POST\<close> and among its query
  parameters when it is a \<open>GET\<close> (the three methods of \<open>uses_get\<close>); the one exception is
  \<^verbatim>\<open>post_artifact\<close> on a file that cannot be opened, which issues no request at all.
\<close>

theorem login_token_lifecycle:
  assumes "c = login_overrides self a_server a_login a_key"
      and "truthy (p_server c)" and "truthy (p_login c)" and "truthy (p_key c)"
      and "r = POST (fmt_opt (p_server c) @ ''/app/api/login'')
                 [(''userLogin'', opt_val (p_login c)), (''key'', opt_val (p_key c))] []"
      and "resp = transport env net r"
  shows "(status_code resp = 200 \<and> loads env (resp_text resp) = Some (PDict kvs)
            \<and> map_of kvs ''access_token'' = Some (PStr T) \<longrightarrow>
          login env self net a_server a_login a_key
            = (Inr (), c\<lparr>p_access_token := PStr T\<rparr>, net @ [r]))
       \<and> (status_code resp \<noteq> 200 \<longrightarrow>
          login env self net a_server a_login a_key
            = (Inl (ValueError [''Error during login. Server returned '' @ fmt_d (status_code resp)
                                 @ ''. '' @ resp_text resp]), logoff c, net @ [r]))
       \<and> (\<forall>self' net' call. p_access_token self' = PStr T \<longrightarrow>
            (unreadable env call \<and> snd (invoke env self' net' call) = net')
          \<or> (\<not> unreadable env call \<and> (\<exists>q. snd (invoke env self' net' call) = net' @ [q]
                \<and> map_of (request_fields q) ''access_token'' = Some (PStr T)
                \<and> is_GET q = uses_get call)))"
proof (intro conjI impI allI)
  assume "status_code resp = 200 \<and> loads env (resp_text resp) = Some (PDict kvs)
            \<and> map_of kvs ''access_token'' = Some (PStr T)"
  with assms show "login env self net a_server a_login a_key
            = (Inr (), c\<lparr>p_access_token := PStr T\<rparr>, net @ [r])"
    by (simp add: login_def Let_def requests_post_def req_json_def getitem_def logoff_def)
next
  assume "status_code resp \<noteq> 200"
  with assms show "login env self net a_server a_login a_key
            = (Inl (ValueError [''Error during login. Server returned '' @ fmt_d (status_code resp)
                                 @ ''. '' @ resp_text resp]), logoff c, net @ [r])"
    by (simp add: login_def Let_def requests_post_def logoff_def)
next
  fix self' :: BotMaestroSDK and net' call
  assume t: "p_access_token self' = PStr T"
  then have "p_access_token self' \<noteq> PNone" by simp
  from invoke_attaches_token [OF this, of env call net'] t
  show "(unreadable env call \<and> snd (invoke env self' net' call) = net')
          \<or> (\<not> unreadable env call \<and> (\<exists>q. snd (invoke env self' net' call) = net' @ [q]
                \<and> map_of (request_fields q) ''access_token'' = Some (PStr T)
                \<and> is_GET q = uses_get call))"
    by simp
qed

theorem login_token_lifecycle_witness:
  \<open>login (portal (http_response 200 ''{"access_token":"T"}''))
       (init (Some ''http://x/'') (Some ''bot'') (Some ''k'')) [] None None None
     = (Inr (), session,
        [POST ''http://x/app/api/login'' [(''userLogin'', PStr ''bot''), (''key'', PStr ''k'')] []])
   \<and> (\<exists>q. snd (invoke (portal (http_response 200 ''{"access_token":"T"}'')) session [] (Get_task ''7'')) = [q]
          \<and> map_of (request_fields q) ''access_token'' = Some (PStr ''T'') \<and> is_GET q)
   \<and> (\<exists>q. snd (invoke (portal (http_response 200 ''{"access_token":"T"}'')) session []
                   (Alert ''7'' ''title'' ''text'' ''ERROR'')) = [q]
          \<and> map_of (request_fields q) ''access_token'' = Some (PStr ''T'') \<and> \<not> is_GET q)\<close>
proof -
  let ?resp = \<open>http_response 200 ''{"access_token":"T"}''\<close>
  let ?env = "portal ?resp"
  let ?c = "session\<lparr>p_access_token := PNone\<rparr>"
  let ?r = "POST ''http://x/app/api/login'' [(''userLogin'', PStr ''bot''), (''key'', PStr ''k'')] []"
  have c: "?c = login_overrides (init (Some ''http://x/'') (Some ''bot'') (Some ''k'')) None None None"
    by code_simp
  have s: "truthy (p_server ?c)" and l: "truthy (p_login ?c)" and k: "truthy (p_key ?c)"
    by (simp_all add: session_def truthy_def)
  have r: "?r = POST (fmt_opt (p_server ?c) @ ''/app/api/login'')
                 [(''userLogin'', opt_val (p_login ?c)), (''key'', opt_val (p_key ?c))] []"
    by (simp add: session_def fmt_opt_def opt_val_def)
  have resp: "?resp = transport ?env [] ?r"
    by (simp add: portal_def)
  have ok: \<open>status_code ?resp = 200 \<and>
            loads ?env (resp_text ?resp) = Some (PDict [(''access_token'', PStr ''T'')]) \<and>
            map_of [(''access_token'', PStr ''T'')] ''access_token'' = Some (PStr ''T'')\<close>
    by code_simp
  have tok: "p_access_token session = PStr ''T''"
    by (simp add: session_def)
  have nr: "\<not> unreadable ?env (Get_task ''7'')" "\<not> unreadable ?env (Alert ''7'' ''title'' ''text'' ''ERROR'')"
    by (simp_all add: unreadable_def)
  note th = login_token_lifecycle [OF c s l k r resp,
      of "[(''access_token'', PStr ''T'')]" "''T''"]
  from th ok have "login ?env (init (Some ''http://x/'') (Some ''bot'') (Some ''k'')) [] None None None
      = (Inr (), ?c\<lparr>p_access_token := PStr ''T''\<rparr>, [] @ [?r])"
    by blast
  moreover have "?c\<lparr>p_access_token := PStr ''T''\<rparr> = session"
    by (simp add: session_def)
  moreover from th tok nr
  have "\<exists>q. snd (invoke ?env session [] (Get_task ''7'')) = [] @ [q]
          \<and> map_of (request_fields q) ''access_token'' = Some (PStr ''T'')
          \<and> is_GET q = uses_get (Get_task ''7'')"
    by blast
  moreover from th tok nr
  have "\<exists>q. snd (invoke ?env session [] (Alert ''7'' ''title'' ''text'' ''ERROR'')) = [] @ [q]
          \<and> map_of (request_fields q) ''access_token'' = Some (PStr ''T'')
          \<and> is_GET q = uses_get (Alert ''7'' ''title'' ''text'' ''ERROR'')"
    by blast
  ultimately show ?thesis
    by (simp add: uses_get_def)
qed


section \<open>Responses other than 200\<close>

lemma server_returned_message:
  assumes "loads env (resp_text req) = Some (PDict kvs)"
      and "map_of kvs ''message'' = Some (PStr m)"
  shows "server_returned env prefix req
           = ValueError [prefix @ fmt_d (status_code req) @ ''. '' @ m]"
  using assms
  by (simp add: server_returned_def json_message_def seq_def req_json_def dict_get_def fmt_s_def)

lemma server_returned_raw:
  assumes "loads env (resp_text req) = None"
  shows "server_returned env prefix req
           = ValueError [prefix @ fmt_d (status_code req) @ ''. '' @ resp_text req]"
  using assms
  by (simp add: server_returned_def json_message_def seq_def req_json_def is_ValueError_def)

text \<open>
  What holds of all twelve methods: when the portal answers every request with a status
  other than 200, no authenticated call returns a value.
\<close>

lemma invoke_non_200_raises:
  assumes "\<forall>q. status_code (transport env net q) \<noteq> 200"
  shows "\<exists>e. fst (invoke env self net c) = Inl e"
  using assms
  by (cases c)
     (auto simp add: method_defs ensure_access_token_def returning_def requests_post_def
        requests_get_def Let_def split: sum.splits)

text \<open>
  What holds of the ten methods other than \<^verbatim>\<open>alert\<close> and \<^verbatim>\<open>message\<close>: on a status other
  than 200 the exception is the one of \<open>server_returned\<close>, which carries the status code
  and the \<^verbatim>\<open>message\<close> of the decoded body, or the raw body when the body is not JSON.
\<close>

lemma invoke_non_200_server_returned:
  assumes "p_access_token self \<noteq> PNone" and "\<not> unreadable env c"
      and "\<forall>q. status_code (transport env net q) \<noteq> 200"
      and "\<forall>t a b d. c \<noteq> Alert t a b d" and "\<forall>e u s b t g. c \<noteq> Message e u s b t g"
  shows "\<exists>prefix q. snd (invoke env self net c) = net @ [q]
           \<and> fst (invoke env self net c) = Inl (server_returned env prefix (transport env net q))"
  using assms
  by (cases c)
     (auto simp add: method_defs ensure_access_token_def returning_def requests_post_def
        requests_get_def Let_def unreadable_def split: sum.splits)

text \<open>
  C1, the claim: on a status other than 200 every endpoint method fails with an error
  that carries the status code and the \<^verbatim>\<open>message\<close> of the JSON body, or the raw body when
  the body is not JSON. The code at three inputs, with a client that holds a token:
  \<^verbatim>\<open>alert\<close>, answered 500 with the body \<^verbatim>\<open>{"message":"bad thing"}\<close>, raises a
  \<open>ValueError\<close> of two arguments, the unformatted text \<^verbatim>\<open>Error during alert. %s\<close> and the
  raw body, with no status code and without decoding the body; \<^verbatim>\<open>message\<close>, answered 502
  with a body that is not JSON, raises the decoder's exception instead of falling back
  to the raw body; \<^verbatim>\<open>finish_task\<close>, as the eight methods after it, does what the claim
  says on both answers.
\<close>

theorem alert_and_message_error_paths:
  \<open>alert (portal (http_response 500 ''{"message":"bad thing"}'')) session []
       ''7'' ''title'' ''text'' ''ERROR''
     = (Inl (ValueError [''Error during alert. %s'', ''{"message":"bad thing"}'']),
        [POST ''http://x/app/api/alert/send''
           [(''taskId'', PStr ''7''), (''title'', PStr ''title''), (''message'', PStr ''text''),
            (''type'', PStr ''ERROR''), (''access_token'', PStr ''T'')] []])
   \<and> fst (message (portal (http_response 502 ''Bad Gateway'')) session []
            [''a@b.c''] [] ''subject'' ''body'' ''TEXT'' ''g'')
     = Inl JSONDecodeError
   \<and> fst (finish_task (portal (http_response 500 ''{"message":"bad thing"}'')) session []
            ''7'' ''SUCCESS'' [])
     = Inl (ValueError [''Error during task finish. Server returned 500. bad thing''])
   \<and> fst (finish_task (portal (http_response 502 ''Bad Gateway'')) session []
            ''7'' ''SUCCESS'' [])
     = Inl (ValueError [''Error during task finish. Server returned 502. Bad Gateway''])\<close>
  by code_simp

section \<open>The file name of an artifact\<close>

lemma rfind_absent: "c \<notin> set s \<Longrightarrow> rfind s c = - 1"
  by (induction s) (auto simp add: Let_def)

lemma rfind_last: "c \<notin> set b \<Longrightarrow> rfind (a @ c # b) c = int (length a)"
  by (induction a) (auto simp add: Let_def rfind_absent)

lemma slice_prefix: "k \<le> length s \<Longrightarrow> py_slice s None (Some (int k)) = take k s"
  by (simp add: py_slice_def slice_bound_def)

lemma slice_suffix: "py_slice s (Some (int k)) None = drop k s"
  by (simp add: py_slice_def slice_bound_def min_def Let_def)

lemma slice_inner:
  "py_slice (pre @ x # q # name @ [q']) (Some (int (length pre) + 2)) (Some (- 1)) = name"
  by (simp add: py_slice_def slice_bound_def Let_def nat_add_distrib)

lemma artifact_filename_quoted:
  assumes "CHR ''='' \<notin> set (q1 # name @ [q2])"
      and "name = base @ CHR ''_'' # suffix" and "CHR ''_'' \<notin> set suffix"
      and "name = stem @ CHR ''.'' # ext" and "CHR ''.'' \<notin> set ext"
  shows "artifact_filename (pre @ CHR ''='' # q1 # name @ [q2]) = base @ CHR ''.'' # ext"
proof -
  let ?h = "pre @ CHR ''='' # q1 # name @ [q2]"
  have "rfind ?h CHR ''='' = int (length pre)"
    using assms(1) by (intro rfind_last) simp
  then have cut: "py_slice ?h (Some (rfind ?h CHR ''='' + 2)) (Some (- 1)) = name"
    by (simp only: slice_inner)
  have u: "rfind name CHR ''_'' = int (length base)"
    using assms(2,3) by (simp add: rfind_last)
  have d: "rfind name CHR ''.'' = int (length stem)"
    using assms(4,5) by (simp add: rfind_last)
  have "py_slice name None (Some (int (length base))) = base"
    using assms(2) by (simp add: slice_prefix)
  moreover have "py_slice name (Some (int (length stem))) None = CHR ''.'' # ext"
    using assms(4) by (simp add: slice_suffix)
  ultimately show ?thesis
    unfolding artifact_filename_def Let_def cut u d by simp
qed

text \<open>
  C3, as the code has it. For every 200 response to \<^verbatim>\<open>get_artifact\<close> whose
  \<^verbatim>\<open>Content-Disposition\<close> value is, after its last \<open>=\<close>, the file name enclosed between
  one character on each side (the quotes of \<^verbatim>\<open>filename="..."\<close>), where the file name
  contains a \<open>_\<close> and a \<open>.\<close>: the returned file name is the part of the name before its
  last \<open>_\<close> followed by the part from its last \<open>.\<close> onward, and the bytes returned are
  the content of the response as it is. The code skips the character after \<open>=\<close> and
  drops the last character of the header value (\<^verbatim>\<open>[rfind('=') + 2:-1]\<close>).
\<close>

theorem get_artifact_filename:
  assumes "p_access_token self \<noteq> PNone"
      and "req = transport env net (GET (fmt_opt (p_server self) @ ''/app/api/artifact/get'')
                   [(''id'', PInt artifact_id), (''access_token'', p_access_token self)])"
      and "status_code req = 200"
      and "resp_headers req ''Content-Disposition'' = Some (pre @ CHR ''='' # q1 # name @ [q2])"
      and "CHR ''='' \<notin> set (q1 # name @ [q2])"
      and "name = base @ CHR ''_'' # suffix" and "CHR ''_'' \<notin> set suffix"
      and "name = stem @ CHR ''.'' # ext" and "CHR ''.'' \<notin> set ext"
  shows "fst (get_artifact env self net artifact_id)
           = Inr (base @ CHR ''.'' # ext, resp_content req)"
proof -
  have "artifact_filename (pre @ CHR ''='' # q1 # name @ [q2]) = base @ CHR ''.'' # ext"
    using assms(5-9) by (rule artifact_filename_quoted)
  with assms(1-4) show ?thesis
    by (simp add: get_artifact_def ensure_access_token_def requests_get_def Let_def)
qed

theorem get_artifact_filename_witness:
  \<open>fst (get_artifact (portal (artifact_response ''attachment; filename="report_20240101.pdf"'' [1, 2, 3]))
          session [] 9)
     = Inr (''report.pdf'', [1, 2, 3])\<close>
proof -
  let ?resp = \<open>artifact_response ''attachment; filename="report_20240101.pdf"'' [1, 2, 3]\<close>
  let ?env = "portal ?resp"
  have tok: "p_access_token session \<noteq> PNone"
    by (simp add: session_def)
  have req: "?resp = transport ?env [] (GET (fmt_opt (p_server session) @ ''/app/api/artifact/get'')
                   [(''id'', PInt 9), (''access_token'', p_access_token session)])"
    by (simp add: portal_def)
  have ok: "status_code ?resp = 200"
    by (simp add: artifact_response_def)
  have hdr: \<open>resp_headers ?resp ''Content-Disposition''
      = Some (''attachment; filename'' @ CHR ''='' # CHR 0x22 # ''report_20240101.pdf'' @ [CHR 0x22])\<close>
    by (simp add: artifact_response_def)
  have eq: "CHR ''='' \<notin> set (CHR 0x22 # ''report_20240101.pdf'' @ [CHR 0x22])"
    by simp
  have us: "''report_20240101.pdf'' = ''report'' @ CHR ''_'' # ''20240101.pdf''"
    and us': "CHR ''_'' \<notin> set ''20240101.pdf''"
    and dot: "''report_20240101.pdf'' = ''report_20240101'' @ CHR ''.'' # ''pdf''"
    and dot': "CHR ''.'' \<notin> set ''pdf''"
    by simp_all
  from get_artifact_filename [OF tok req ok hdr eq us us' dot dot']
  show ?thesis by (simp add: artifact_response_def)
qed

theorem get_artifact_unquoted_counterexample:
  \<open>get_artifact (portal (artifact_response ''attachment; filename=report_20240101.pdf'' [1, 2, 3]))
       session [] 9
     = (Inr (''eport.pd'', [1, 2, 3]),
        [GET ''http://x/app/api/artifact/get'' [(''id'', PInt 9), (''access_token'', PStr ''T'')]])
   \<and> fst (get_artifact (portal (artifact_response ''attachment; filename=report_20240101.pdf'' [1, 2, 3]))
       session [] 9)
     \<noteq> Inr (''report.pdf'', [1, 2, 3])\<close>
  by code_simp

section \<open>Reading a log\<close>

lemma get_columns_objects:
  "get_columns (map PDict objs) =
     Inr (map (\<lambda>kvs. case map_of kvs ''columns'' of None \<Rightarrow> PNone | Some c \<Rightarrow> c) objs)"
  by (induction objs) (simp_all add: seq_def dict_get_def split: option.splits)

lemma get_columns_present:
  "list_all2 (\<lambda>e c. \<exists>kvs. e = PDict kvs \<and> map_of kvs ''columns'' = Some c) entries cols
     \<Longrightarrow> get_columns entries = Inr cols"
  by (induction entries cols rule: list_all2_induct) (auto simp add: seq_def dict_get_def)

text \<open>An entry that is not an object has no \<^verbatim>\<open>get\<close>: the whole call raises.\<close>

lemma get_columns_not_object:
  "\<exists>e \<in> set entries. \<forall>kvs. e \<noteq> PDict kvs \<Longrightarrow> get_columns entries = Inl AttributeError"
proof (induction entries)
  case Nil
  then show ?case by simp
next
  case (Cons e es)
  show ?case
  proof (cases e)
    case (PDict kvs)
    with Cons show ?thesis
      by (auto simp add: seq_def dict_get_def split: option.splits)
  qed (simp_all add: seq_def dict_get_def)
qed

lemma get_log_ok:
  assumes "p_access_token self \<noteq> PNone"
      and "req = transport env net (GET (fmt_opt (p_server self) @ ''/app/api/log/read'')
                  [(''activityLabel'', PStr activity_label), (''date'', opt_val date),
                   (''access_token'', p_access_token self)])"
      and "status_code req = 200"
      and "loads env (resp_text req) = Some (PDict kvs)"
      and "map_of kvs ''message'' = Some (PStr m)"
      and "loads env m = Some (PList entries)"
  shows "fst (get_log env self net activity_label date) = get_columns entries"
  using assms
  by (simp add: get_log_def ensure_access_token_def requests_get_def Let_def seq_def
        req_json_def getitem_def json_loads_def py_iter_def)

text \<open>
  C8. For every 200 response to \<^verbatim>\<open>get_log\<close> whose body decodes to an object whose
  \<^verbatim>\<open>message\<close> is a string that decodes to an array of objects, each with a \<^verbatim>\<open>columns\<close>
  field: the result is the list of those \<^verbatim>\<open>columns\<close> values, one per entry and in the
  order of the array. The witness is the example of the spec: the body
  \<^verbatim>\<open>{"message": "[{\"columns\":{\"a\":1}},{\"columns\":{\"a\":2}}]"}\<close> gives
  \<^verbatim>\<open>[{"a":1},{"a":2}]\<close>.
\<close>

theorem get_log_projects_columns:
  assumes "p_access_token self \<noteq> PNone"
      and "req = transport env net (GET (fmt_opt (p_server self) @ ''/app/api/log/read'')
                  [(''activityLabel'', PStr activity_label), (''date'', opt_val date),
                   (''access_token'', p_access_token self)])"
      and "status_code req = 200"
      and "loads env (resp_text req) = Some (PDict kvs)"
      and "map_of kvs ''message'' = Some (PStr m)"
      and "loads env m = Some (PList entries)"
      and "list_all2 (\<lambda>e c. \<exists>obj. e = PDict obj \<and> map_of obj ''columns'' = Some c) entries cols"
  shows "fst (get_log env self net activity_label date) = Inr cols"
  using get_log_ok [OF assms(1-6)] get_columns_present [OF assms(7)] by simp

theorem get_log_projects_columns_witness:
  "fst (get_log (portal (http_response 200 log_body)) session [] ''act'' (Some []))
     = Inr [PDict [(''a'', PInt 1)], PDict [(''a'', PInt 2)]]"
proof -
  let ?resp = "http_response 200 log_body"
  let ?env = "portal ?resp"
  have tok: "p_access_token session \<noteq> PNone"
    by (simp add: session_def)
  have req: "?resp = transport ?env [] (GET (fmt_opt (p_server session) @ ''/app/api/log/read'')
                  [(''activityLabel'', PStr ''act''), (''date'', opt_val (Some [])),
                   (''access_token'', p_access_token session)])"
    by (simp add: portal_def)
  have ok: "status_code ?resp = 200"
    by (simp add: http_response_def)
  have body: \<open>loads ?env (resp_text ?resp)
      = Some (PDict [(''message'', PStr ''[{"columns":{"a":1}},{"columns":{"a":2}}]'')])\<close>
    by code_simp
  have msg: \<open>map_of [(''message'', PStr ''[{"columns":{"a":1}},{"columns":{"a":2}}]'')] ''message''
      = Some (PStr ''[{"columns":{"a":1}},{"columns":{"a":2}}]'')\<close>
    by simp
  have arr: \<open>loads ?env ''[{"columns":{"a":1}},{"columns":{"a":2}}]''
      = Some (PList [PDict [(''columns'', PDict [(''a'', PInt 1)])],
                     PDict [(''columns'', PDict [(''a'', PInt 2)])]])\<close>
    by code_simp
  have cols: "list_all2 (\<lambda>e c. \<exists>obj. e = PDict obj \<and> map_of obj ''columns'' = Some c)
      [PDict [(''columns'', PDict [(''a'', PInt 1)])], PDict [(''columns'', PDict [(''a'', PInt 2)])]]
      [PDict [(''a'', PInt 1)], PDict [(''a'', PInt 2)]]"
    by simp
  from get_log_projects_columns [OF tok req ok body msg arr cols]
  show ?thesis .
qed

text \<open>
  C10, as the code has it. For every 200 response to \<^verbatim>\<open>get_log\<close> whose \<^verbatim>\<open>message\<close>
  decodes to an array in which every entry is an object, \<^verbatim>\<open>get_log\<close> does not fail when
  objects lack the \<^verbatim>\<open>columns\<close> key: it returns a list with exactly one element per
  entry of the array, in order, which is \<open>None\<close> at the position of every object
  without \<^verbatim>\<open>columns\<close> and the \<^verbatim>\<open>columns\<close> value at the position of every object that
  has it. (An entry that is not an object makes the call raise, whatever the other
  entries are: \<open>get_columns_not_object\<close> and the counterexample below.)
\<close>

theorem get_log_missing_columns:
  assumes "p_access_token self \<noteq> PNone"
      and "req = transport env net (GET (fmt_opt (p_server self) @ ''/app/api/log/read'')
                  [(''activityLabel'', PStr activity_label), (''date'', opt_val date),
                   (''access_token'', p_access_token self)])"
      and "status_code req = 200"
      and "loads env (resp_text req) = Some (PDict kvs)"
      and "map_of kvs ''message'' = Some (PStr m)"
      and "loads env m = Some (PList (map PDict objs))"
  shows "\<exists>res. fst (get_log env self net activity_label date) = Inr res
           \<and> length res = length objs
           \<and> (\<forall>i < length objs. map_of (objs ! i) ''columns'' = None \<longrightarrow> res ! i = PNone)
           \<and> (\<forall>i < length objs. \<forall>c. map_of (objs ! i) ''columns'' = Some c \<longrightarrow> res ! i = c)"
  using get_log_ok [OF assms] by (simp add: get_columns_objects)

theorem get_log_missing_columns_witness:
  "fst (get_log (portal (http_response 200 log_body_gap)) session [] ''act'' None)
     = Inr [PDict [(''a'', PInt 1)], PNone]"
proof -
  let ?resp = "http_response 200 log_body_gap"
  let ?env = "portal ?resp"
  let ?objs = "[[(''columns'', PDict [(''a'', PInt 1)])], [(''b'', PInt 2)]]"
  have tok: "p_access_token session \<noteq> PNone"
    by (simp add: session_def)
  have req: "?resp = transport ?env [] (GET (fmt_opt (p_server session) @ ''/app/api/log/read'')
                  [(''activityLabel'', PStr ''act''), (''date'', opt_val None),
                   (''access_token'', p_access_token session)])"
    by (simp add: portal_def)
  have ok: "status_code ?resp = 200"
    by (simp add: http_response_def)
  have body: \<open>loads ?env (resp_text ?resp)
      = Some (PDict [(''message'', PStr ''[{"columns":{"a":1}},{"b":2}]'')])\<close>
    by code_simp
  have msg: \<open>map_of [(''message'', PStr ''[{"columns":{"a":1}},{"b":2}]'')] ''message''
      = Some (PStr ''[{"columns":{"a":1}},{"b":2}]'')\<close>
    by simp
  have arr: \<open>loads ?env ''[{"columns":{"a":1}},{"b":2}]'' = Some (PList (map PDict ?objs))\<close>
    by code_simp
  from get_log_missing_columns [OF tok req ok body msg arr]
  obtain res where res: "fst (get_log ?env session [] ''act'' None) = Inr res"
    and len: "length res = length ?objs"
    and none: "\<forall>i < length ?objs. map_of (?objs ! i) ''columns'' = None \<longrightarrow> res ! i = PNone"
    and some: "\<forall>i < length ?objs. \<forall>c. map_of (?objs ! i) ''columns'' = Some c \<longrightarrow> res ! i = c"
    by blast
  from some have "res ! 0 = PDict [(''a'', PInt 1)]"
    by simp
  moreover from none have "res ! 1 = PNone"
    by simp
  moreover from len have "length res = 2"
    by simp
  ultimately have "res = [PDict [(''a'', PInt 1)], PNone]"
    by (cases res; cases "tl res"; cases "tl (tl res)") auto
  with res show ?thesis by simp
qed


theorem get_log_entry_not_object_counterexample:
  "fst (get_log (portal (http_response 200 (message_body ''[{}, 5]''))) session [] ''act'' None)
     = Inl AttributeError"
  by code_simp

end
